theory Spec2Isabelle
  imports Main "HOL-Library.Word" "HOL-Library.Multiset"
begin

section \<open>The chat hook \<open>useChat\<close> (src/hooks/useChat.ts)\<close>

text \<open>
  The hook is orchestration over three collaborators that are not part of the
  repository: the identity provider (\<open>useAuth\<close>), the remote data service (the
  Supabase client) and the notification sink (\<open>toast\<close>). The five operations of the
  hook are embedded as state transformers over a \<open>world\<close>: the remote store, the
  four pieces of React state, the toasts raised so far and the client's clock.
  The identity is a parameter (\<open>user option\<close>, \<open>None\<close> for a missing identity), as
  the closure reads it from the context.
\<close>

subsection \<open>Data\<close>

text \<open>
  Identifiers and roles are JavaScript strings that the code only compares for
  equality and truthiness; they are \<open>string\<close>. A message body is trimmed, so it is kept
  as what a JavaScript string is, a sequence of 16-bit code units. Timestamps are
  only ordered by the store; they are natural numbers (a point on the time line).
\<close>

type_synonym ident = string
type_synonym timestamp = nat
type_synonym js_string = "16 word list"

datatype chat_status = Active | Waiting | Closed

record user =
  user_id :: ident
  role :: string

record profile =
  profile_id :: ident
  name :: string
  email :: string
  profile_role :: string

text \<open>A row of \<open>chat_rooms\<close>, and the row joined with the display info of customer and
  agent (name, email), which is the \<open>ChatRoom\<close> of the hook's state.\<close>

record room_row =
  room_id :: ident
  customer_id :: ident
  agent_id :: "ident option"
  status :: chat_status
  created_at :: timestamp
  updated_at :: timestamp

record ChatRoom = room_row +
  customer :: "(string \<times> string) option"
  agent :: "(string \<times> string) option"

text \<open>A row of \<open>chat_messages\<close>, and the row joined with the sender's (name, role).\<close>

record message_row =
  msg_id :: ident
  chat_room_id :: ident
  sender_id :: ident
  message :: js_string
  msg_created_at :: timestamp

record Message = message_row +
  sender :: "(string \<times> string) option"

record toast_msg =
  title :: string
  description :: string
  variant :: "string option"

subsection \<open>The remote data service\<close>

text \<open>
  The object passed to \<open>.update(...)\<close>: the columns it sets. \<open>sendMessage\<close> sets
  \<open>updated_at\<close>; \<open>updateChatStatus\<close> sets \<open>status\<close> and, when given, \<open>agent_id\<close>.
\<close>

record room_patch =
  set_status :: "chat_status option"
  set_agent_id :: "ident option"
  set_updated_at :: "timestamp option"

text \<open>The six requests the hook's operations build, with the values they carry.\<close>

datatype request =
    SelectRooms "ident option"
  | SelectMessages ident
  | SelectRoomMaybeSingle ident
  | InsertRoom ident chat_status
  | InsertMessage ident ident js_string
  | UpdateRoom ident room_patch

datatype backend_error = RequestFailed | MultipleRows

text \<open>What an awaited request resolves to: \<open>{ data, error }\<close>.\<close>

record 'a response =
  data :: "'a option"
  error :: "backend_error option"

text \<open>
  The store is a black box to the hook; the model gives it the behaviour the
  client SDK documents. It holds the three tables, its clock, a counter for the
  identifiers it generates, the requests received so far (\<open>sent\<close>, in order), and
  \<open>faults\<close>: whether each coming request fails (\<open>True\<close>), in order; a request beyond the
  end of the list succeeds. A failed request changes no table.
\<close>

record backend =
  chat_rooms :: "room_row list"
  chat_messages :: "message_row list"
  profiles :: "profile list"
  server_clock :: timestamp
  next_id :: nat
  faults :: "bool list"
  sent :: "request list"

definition fails_at :: "nat \<Rightarrow> backend \<Rightarrow> bool" where
  "fails_at n b = (n < length (faults b) \<and> faults b ! n)"

definition send :: "request \<Rightarrow> backend \<Rightarrow> bool \<times> backend" where
  "send q b =
    (case faults b of
       [] \<Rightarrow> (False, b\<lparr>sent := sent b @ [q]\<rparr>)
     | f # fs \<Rightarrow> (f, b\<lparr>faults := fs, sent := sent b @ [q]\<rparr>))"

definition gen_id :: "nat \<Rightarrow> ident" where
  "gen_id n = ''gen-'' @ replicate n (CHR ''+'')"

definition contact_of :: "profile list \<Rightarrow> ident \<Rightarrow> (string \<times> string) option" where
  "contact_of ps i = map_option (\<lambda>p. (name p, email p)) (find (\<lambda>p. profile_id p = i) ps)"

definition sender_of :: "profile list \<Rightarrow> ident \<Rightarrow> (string \<times> string) option" where
  "sender_of ps i =
    map_option (\<lambda>p. (name p, profile_role p)) (find (\<lambda>p. profile_id p = i) ps)"

definition join_room :: "profile list \<Rightarrow> room_row \<Rightarrow> ChatRoom" where
  "join_room ps r =
    \<lparr>room_id = room_id r, customer_id = customer_id r, agent_id = agent_id r,
     status = status r, created_at = created_at r, updated_at = updated_at r,
     customer = contact_of ps (customer_id r),
     agent = (case agent_id r of None \<Rightarrow> None | Some a \<Rightarrow> contact_of ps a)\<rparr>"

definition join_message :: "profile list \<Rightarrow> message_row \<Rightarrow> Message" where
  "join_message ps m =
    \<lparr>msg_id = msg_id m, chat_room_id = chat_room_id m, sender_id = sender_id m,
     message = message m, msg_created_at = msg_created_at m,
     sender = sender_of ps (sender_id m)\<rparr>"

text \<open>
  \<open>from('chat_rooms').select(..joins..).order('updated_at', descending)\<close>, with
  \<open>.eq('customer_id', c)\<close> when the filter is \<open>Some c\<close>. Rows of equal timestamp come
  in some order the store chooses; the model takes the reverse of a stable sort.
\<close>

definition select_rooms :: "ident option \<Rightarrow> backend \<Rightarrow> ChatRoom list response \<times> backend" where
  "select_rooms flt b =
    (case send (SelectRooms flt) b of (failed, b') \<Rightarrow>
      if failed then (\<lparr>data = None, error = Some RequestFailed\<rparr>, b')
      else
        (\<lparr>data = Some (map (join_room (profiles b))
             (rev (sort_key updated_at
                (case flt of
                   None \<Rightarrow> chat_rooms b
                 | Some c \<Rightarrow> filter (\<lambda>r. customer_id r = c) (chat_rooms b))))),
          error = None\<rparr>, b'))"

text \<open>\<open>from('chat_messages').select(..join..).eq('chat_room_id', rid).order('created_at',
  ascending)\<close>.\<close>

definition select_messages :: "ident \<Rightarrow> backend \<Rightarrow> Message list response \<times> backend" where
  "select_messages rid b =
    (case send (SelectMessages rid) b of (failed, b') \<Rightarrow>
      if failed then (\<lparr>data = None, error = Some RequestFailed\<rparr>, b')
      else
        (\<lparr>data = Some (map (join_message (profiles b))
             (sort_key msg_created_at
                (filter (\<lambda>m. chat_room_id m = rid) (chat_messages b)))),
          error = None\<rparr>, b'))"

text \<open>
  \<open>from('chat_rooms').select('*').eq('customer_id', c).maybeSingle()\<close>: the SDK gives
  \<open>data = null\<close> for no row, the row for exactly one, and \<open>data = null\<close> with an error for
  more than one row (the result of \<open>maybeSingle\<close> must be zero or one row).
\<close>

definition select_room_maybe_single :: "ident \<Rightarrow> backend \<Rightarrow> room_row response \<times> backend" where
  "select_room_maybe_single c b =
    (case send (SelectRoomMaybeSingle c) b of (failed, b') \<Rightarrow>
      if failed then (\<lparr>data = None, error = Some RequestFailed\<rparr>, b')
      else
        (case filter (\<lambda>r. customer_id r = c) (chat_rooms b) of
           [] \<Rightarrow> (\<lparr>data = None, error = None\<rparr>, b')
         | [r] \<Rightarrow> (\<lparr>data = Some r, error = None\<rparr>, b')
         | _ # _ # _ \<Rightarrow> (\<lparr>data = None, error = Some MultipleRows\<rparr>, b')))"

text \<open>
  \<open>from('chat_rooms').insert({ customer_id, status }).select().single()\<close>: the store
  fills in the identifier, no agent, and both timestamps with its clock, and gives
  the new row back.
\<close>

definition new_room :: "backend \<Rightarrow> ident \<Rightarrow> chat_status \<Rightarrow> room_row" where
  "new_room b c st =
    \<lparr>room_id = gen_id (next_id b), customer_id = c, agent_id = None, status = st,
     created_at = server_clock b, updated_at = server_clock b\<rparr>"

definition insert_room :: "ident \<Rightarrow> chat_status \<Rightarrow> backend \<Rightarrow> room_row response \<times> backend" where
  "insert_room c st b =
    (case send (InsertRoom c st) b of (failed, b') \<Rightarrow>
      if failed then (\<lparr>data = None, error = Some RequestFailed\<rparr>, b')
      else
        (\<lparr>data = Some (new_room b c st), error = None\<rparr>,
         b'\<lparr>chat_rooms := chat_rooms b @ [new_room b c st], next_id := Suc (next_id b)\<rparr>))"

text \<open>\<open>from('chat_messages').insert({ chat_room_id, sender_id, message })\<close>.\<close>

definition new_message :: "backend \<Rightarrow> ident \<Rightarrow> ident \<Rightarrow> js_string \<Rightarrow> message_row" where
  "new_message b rid sid body =
    \<lparr>msg_id = gen_id (next_id b), chat_room_id = rid, sender_id = sid, message = body,
     msg_created_at = server_clock b\<rparr>"

definition insert_message ::
  "ident \<Rightarrow> ident \<Rightarrow> js_string \<Rightarrow> backend \<Rightarrow> unit response \<times> backend" where
  "insert_message rid sid body b =
    (case send (InsertMessage rid sid body) b of (failed, b') \<Rightarrow>
      if failed then (\<lparr>data = None, error = Some RequestFailed\<rparr>, b')
      else
        (\<lparr>data = None, error = None\<rparr>,
         b'\<lparr>chat_messages := chat_messages b @ [new_message b rid sid body],
            next_id := Suc (next_id b)\<rparr>))"

text \<open>\<open>from('chat_rooms').update(patch).eq('id', rid)\<close>: every row with that identifier
  gets the columns of the patch.\<close>

definition apply_patch :: "room_patch \<Rightarrow> room_row \<Rightarrow> room_row" where
  "apply_patch p r =
    r\<lparr>status := (case set_status p of None \<Rightarrow> status r | Some s \<Rightarrow> s),
      agent_id := (case set_agent_id p of None \<Rightarrow> agent_id r | Some a \<Rightarrow> Some a),
      updated_at := (case set_updated_at p of None \<Rightarrow> updated_at r | Some t \<Rightarrow> t)\<rparr>"

definition update_room :: "ident \<Rightarrow> room_patch \<Rightarrow> backend \<Rightarrow> unit response \<times> backend" where
  "update_room rid p b =
    (case send (UpdateRoom rid p) b of (failed, b') \<Rightarrow>
      if failed then (\<lparr>data = None, error = Some RequestFailed\<rparr>, b')
      else
        (\<lparr>data = None, error = None\<rparr>,
         b'\<lparr>chat_rooms :=
              map (\<lambda>r. if room_id r = rid then apply_patch p r else r) (chat_rooms b)\<rparr>))"

subsection \<open>The hook's state\<close>

text \<open>
  \<open>chatRooms\<close>, \<open>selectedChat\<close>, \<open>messages\<close> and \<open>loading\<close> are the four \<open>useState\<close>
  cells (initially empty, none, empty and true). \<open>loading_writes\<close> records every value
  \<open>setLoading\<close> was called with, in order; \<open>now\<close> is what \<open>new Date()\<close> reads.
\<close>

record world =
  remote :: backend
  chatRooms :: "ChatRoom list"
  selectedChat :: "ChatRoom option"
  messages :: "Message list"
  loading :: bool
  loading_writes :: "bool list"
  toasts :: "toast_msg list"
  now :: timestamp

definition toast :: "toast_msg \<Rightarrow> world \<Rightarrow> world" where
  "toast t w = w\<lparr>toasts := toasts w @ [t]\<rparr>"

definition error_toast :: "string \<Rightarrow> toast_msg" where
  "error_toast d = \<lparr>title = ''Error'', description = d, variant = Some ''destructive''\<rparr>"

definition setChatRooms :: "ChatRoom list \<Rightarrow> world \<Rightarrow> world" where
  "setChatRooms rs w = w\<lparr>chatRooms := rs\<rparr>"

definition setMessages :: "Message list \<Rightarrow> world \<Rightarrow> world" where
  "setMessages ms w = w\<lparr>messages := ms\<rparr>"

definition setLoading :: "bool \<Rightarrow> world \<Rightarrow> world" where
  "setLoading v w = w\<lparr>loading := v, loading_writes := loading_writes w @ [v]\<rparr>"

subsection \<open>String.prototype.trim\<close>

text \<open>The white space and line terminator code units of ECMAScript, all in the basic
  plane.\<close>

definition isWhiteSpace :: "16 word \<Rightarrow> bool" where
  "isWhiteSpace c =
    (c = 0x0009 \<or> c = 0x000A \<or> c = 0x000B \<or> c = 0x000C \<or> c = 0x000D \<or> c = 0x0020 \<or>
     c = 0x00A0 \<or> c = 0x1680 \<or> (0x2000 \<le> c \<and> c \<le> 0x200A) \<or> c = 0x2028 \<or> c = 0x2029 \<or>
     c = 0x202F \<or> c = 0x205F \<or> c = 0x3000 \<or> c = 0xFEFF)"

definition trim :: "js_string \<Rightarrow> js_string" where
  "trim s = rev (dropWhile isWhiteSpace (rev (dropWhile isWhiteSpace s)))"

subsection \<open>The operations\<close>

text \<open>
  \<open>fetchChatRooms\<close> (lines 14-53). The guard \<open>if (!user) return\<close> stands before the
  \<open>try\<close>; the \<open>finally\<close> block runs on both ways out of the \<open>try\<close>.
\<close>

definition transform :: "ChatRoom \<Rightarrow> ChatRoom" where
  "transform room =
    \<lparr>room_id = room_id room, customer_id = customer_id room, agent_id = agent_id room,
     status = status room, created_at = created_at room, updated_at = updated_at room,
     customer = customer room, agent = agent room\<rparr>"

definition fetchChatRooms :: "user option \<Rightarrow> world \<Rightarrow> world" where
  "fetchChatRooms usr w =
    (case usr of
       None \<Rightarrow> w
     | Some u \<Rightarrow>
        (let query = (if role u = ''customer'' then Some (user_id u) else None) in
         (case select_rooms query (remote w) of (res, b') \<Rightarrow>
           (let w1 = w\<lparr>remote := b'\<rparr>;
                w2 = (case error res of
                        Some e \<Rightarrow> toast (error_toast ''Failed to load chat rooms'') w1
                      | None \<Rightarrow>
                          setChatRooms
                            (map transform (case data res of None \<Rightarrow> [] | Some d \<Rightarrow> d)) w1)
            in setLoading False w2))))"

text \<open>\<open>fetchMessages\<close> (lines 55-66).\<close>

definition fetchMessages :: "ident \<Rightarrow> world \<Rightarrow> world" where
  "fetchMessages chatRoomId w =
    (case select_messages chatRoomId (remote w) of (res, b') \<Rightarrow>
      (let w1 = w\<lparr>remote := b'\<rparr> in
       (case error res of
          None \<Rightarrow> setMessages (case data res of None \<Rightarrow> [] | Some d \<Rightarrow> d) w1
        | Some e \<Rightarrow> w1)))"

text \<open>\<open>getOrCreateChatRoom\<close> (lines 68-91). Only \<open>data\<close> of the lookup is read; its
  \<open>error\<close> is not.\<close>

definition getOrCreateChatRoom :: "user option \<Rightarrow> world \<Rightarrow> room_row option \<times> world" where
  "getOrCreateChatRoom usr w =
    (case usr of
       None \<Rightarrow> (None, w)
     | Some u \<Rightarrow>
        if role u \<noteq> ''customer'' then (None, w)
        else
          (case select_room_maybe_single (user_id u) (remote w) of (res, b1) \<Rightarrow>
            (case data res of
               Some existingRoom \<Rightarrow> (Some existingRoom, w\<lparr>remote := b1\<rparr>)
             | None \<Rightarrow>
                (case insert_room (user_id u) Waiting b1 of (res2, b2) \<Rightarrow>
                  (case error res2 of
                     Some createError \<Rightarrow>
                       (None, toast (error_toast ''Failed to create chat room'') (w\<lparr>remote := b2\<rparr>))
                   | None \<Rightarrow> (data res2, w\<lparr>remote := b2\<rparr>))))))"

text \<open>\<open>sendMessage\<close> (lines 93-112). The update of the room follows the insert on
  both outcomes of the insert; what the update resolves to is not read.\<close>

definition sendMessage :: "user option \<Rightarrow> ident \<Rightarrow> js_string \<Rightarrow> world \<Rightarrow> world" where
  "sendMessage usr chatRoomId msg w =
    (case usr of
       None \<Rightarrow> w
     | Some u \<Rightarrow>
        if trim msg = [] then w
        else
          (case insert_message chatRoomId (user_id u) (trim msg) (remote w) of (res, b1) \<Rightarrow>
            let w1 = w\<lparr>remote := b1\<rparr>;
                w2 = (case error res of
                        Some e \<Rightarrow> toast (error_toast ''Failed to send message'') w1
                      | None \<Rightarrow> w1)
            in
            (case update_room chatRoomId
                    \<lparr>set_status = None, set_agent_id = None, set_updated_at = Some (now w2)\<rparr>
                    (remote w2) of
               (res2, b2) \<Rightarrow> w2\<lparr>remote := b2\<rparr>)))"

text \<open>\<open>updateChatStatus\<close> (lines 114-132). \<open>if (agentId)\<close> is false for a missing
  argument and for the empty string.\<close>

definition updateChatStatus ::
  "user option \<Rightarrow> ident \<Rightarrow> chat_status \<Rightarrow> ident option \<Rightarrow> world \<Rightarrow> world" where
  "updateChatStatus usr chatRoomId st agentId w =
    (case usr of
       None \<Rightarrow> w
     | Some u \<Rightarrow>
        if role u = ''customer'' then w
        else
          (let updateData = \<lparr>set_status = Some st, set_agent_id = None, set_updated_at = None\<rparr>;
               updateData =
                 (case agentId of
                    None \<Rightarrow> updateData
                  | Some a \<Rightarrow> if a = [] then updateData else updateData\<lparr>set_agent_id := Some a\<rparr>)
           in
           (case update_room chatRoomId updateData (remote w) of (res, b1) \<Rightarrow>
             (case error res of
                Some e \<Rightarrow> toast (error_toast ''Failed to update chat status'') (w\<lparr>remote := b1\<rparr>)
              | None \<Rightarrow> w\<lparr>remote := b1\<rparr>))))"

subsection \<open>Reading the state\<close>

text \<open>The columns of the stored row inside a joined row, and the rooms of the store that
  a user owns (those the filter \<open>.eq('customer_id', user.id)\<close> keeps).\<close>

definition row_of :: "ChatRoom \<Rightarrow> room_row" where
  "row_of c =
    \<lparr>room_id = room_id c, customer_id = customer_id c, agent_id = agent_id c,
     status = status c, created_at = created_at c, updated_at = updated_at c\<rparr>"

definition message_row_of :: "Message \<Rightarrow> message_row" where
  "message_row_of m =
    \<lparr>msg_id = msg_id m, chat_room_id = chat_room_id m, sender_id = sender_id m,
     message = message m, msg_created_at = msg_created_at m\<rparr>"

definition owned :: "user \<Rightarrow> backend \<Rightarrow> room_row list" where
  "owned u b = filter (\<lambda>r. customer_id r = user_id u) (chat_rooms b)"

subsection \<open>Example data\<close>

text \<open>
  Two customers and an agent. The store \<open>store0\<close> holds a closed room of \<open>alice\<close>, an
  active room of another customer and three messages; \<open>carol\<close> owns no room. In
  \<open>world_down\<close> the next request fails; in \<open>world_dup\<close> \<open>alice\<close> owns two rooms.
\<close>

definition alice :: user where
  "alice = \<lparr>user_id = ''u1'', role = ''customer''\<rparr>"

definition carol :: user where
  "carol = \<lparr>user_id = ''u3'', role = ''customer''\<rparr>"

definition bob :: user where
  "bob = \<lparr>user_id = ''a1'', role = ''agent''\<rparr>"

definition room1 :: room_row where
  "room1 = \<lparr>room_id = ''r1'', customer_id = ''u1'', agent_id = None, status = Closed,
     created_at = 1, updated_at = 5\<rparr>"

definition room2 :: room_row where
  "room2 = \<lparr>room_id = ''r2'', customer_id = ''u2'', agent_id = Some ''a1'', status = Active,
     created_at = 2, updated_at = 7\<rparr>"

definition room3 :: room_row where
  "room3 = \<lparr>room_id = ''r3'', customer_id = ''u1'', agent_id = None, status = Waiting,
     created_at = 3, updated_at = 3\<rparr>"

definition msg1 :: message_row where
  "msg1 = \<lparr>msg_id = ''m1'', chat_room_id = ''r1'', sender_id = ''u1'', message = [0x68, 0x69],
     msg_created_at = 9\<rparr>"

definition msg2 :: message_row where
  "msg2 = \<lparr>msg_id = ''m2'', chat_room_id = ''r1'', sender_id = ''a1'', message = [0x79, 0x6F],
     msg_created_at = 4\<rparr>"

definition msg3 :: message_row where
  "msg3 = \<lparr>msg_id = ''m3'', chat_room_id = ''r2'', sender_id = ''u2'', message = [0x3F],
     msg_created_at = 6\<rparr>"

definition store0 :: backend where
  "store0 = \<lparr>chat_rooms = [room1, room2], chat_messages = [msg1, msg2, msg3],
     profiles = [\<lparr>profile_id = ''u1'', name = ''Alice'', email = ''alice@example.org'',
                   profile_role = ''customer''\<rparr>,
                 \<lparr>profile_id = ''a1'', name = ''Bob'', email = ''bob@example.org'',
                   profile_role = ''agent''\<rparr>],
     server_clock = 10, next_id = 0, faults = [], sent = []\<rparr>"

definition world0 :: world where
  "world0 = \<lparr>remote = store0, chatRooms = [], selectedChat = None, messages = [],
     loading = True, loading_writes = [], toasts = [], now = 11\<rparr>"

definition world_down :: world where
  "world_down = world0\<lparr>remote := store0\<lparr>faults := [True]\<rparr>,
     messages := [join_message [] msg3]\<rparr>"

definition world_dup :: world where
  "world_dup = world0\<lparr>remote := store0\<lparr>chat_rooms := [room1, room2, room3]\<rparr>\<rparr>"

lemmas ex_defs = alice_def carol_def bob_def room1_def room2_def room3_def msg1_def msg2_def
  msg3_def store0_def world0_def world_down_def world_dup_def

lemmas op_defs = fetchChatRooms_def fetchMessages_def getOrCreateChatRoom_def sendMessage_def
  updateChatStatus_def select_rooms_def select_messages_def select_room_maybe_single_def
  insert_room_def insert_message_def update_room_def send_def fails_at_def toast_def
  setChatRooms_def setMessages_def setLoading_def new_room_def new_message_def
  apply_patch_def gen_id_def owned_def error_toast_def trim_def isWhiteSpace_def
  join_room_def join_message_def contact_of_def sender_of_def transform_def row_of_def
  message_row_of_def Let_def

section \<open>Facts about the store and the helpers\<close>

text \<open>A request is logged, takes the head of the fault schedule, and fails exactly when
  that head is \<open>True\<close>.\<close>

lemma send_eq:
  "send q b = (fails_at 0 b, b\<lparr>faults := tl (faults b), sent := sent b @ [q]\<rparr>)"
  by (cases "faults b") (simp_all add: send_def fails_at_def)

lemma fails_at_0: "fails_at 0 b \<longleftrightarrow> faults b \<noteq> [] \<and> hd (faults b)"
  by (cases "faults b") (simp_all add: fails_at_def)

lemma fails_at_1: "fails_at (Suc 0) b \<longleftrightarrow> tl (faults b) \<noteq> [] \<and> hd (tl (faults b))"
  by (cases "faults b"; cases "tl (faults b)") (simp_all add: fails_at_def)

lemma transform_id: "transform r = r"
  by (cases r) (simp add: transform_def)

lemma row_of_join: "row_of (join_room ps r) = r"
  by (cases r) (simp add: row_of_def join_room_def)

lemma customer_id_join: "customer_id (join_room ps r) = customer_id r"
  by (simp add: join_room_def)

lemma message_row_of_join: "message_row_of (join_message ps m) = m"
  by (cases m) (simp add: message_row_of_def join_message_def)

lemma created_at_join: "msg_created_at (join_message ps m) = msg_created_at m"
  by (simp add: join_message_def)

lemma all_dropWhile: "(\<forall>x \<in> set (dropWhile P xs). P x) \<longleftrightarrow> (\<forall>x \<in> set xs. P x)"
  by (induction xs) auto

text \<open>\<open>!message.trim()\<close> holds exactly for the empty and the all-white-space strings.\<close>

lemma trim_empty_iff: "trim s = [] \<longleftrightarrow> (\<forall>c \<in> set s. isWhiteSpace c)"
  by (simp add: trim_def dropWhile_eq_Nil_conv all_dropWhile)

lemma lookup_eq:
  "select_room_maybe_single c b =
    ((if fails_at 0 b then \<lparr>data = None, error = Some RequestFailed\<rparr>
      else (case filter (\<lambda>r. customer_id r = c) (chat_rooms b) of
              [] \<Rightarrow> \<lparr>data = None, error = None\<rparr>
            | [r] \<Rightarrow> \<lparr>data = Some r, error = None\<rparr>
            | _ # _ # _ \<Rightarrow> \<lparr>data = None, error = Some MultipleRows\<rparr>)),
     b\<lparr>faults := tl (faults b), sent := sent b @ [SelectRoomMaybeSingle c]\<rparr>)"
  by (simp add: select_room_maybe_single_def send_eq split: list.splits)

section \<open>The operations, one outcome at a time\<close>

lemma fetchChatRooms_ok:
  assumes "\<not> fails_at 0 (remote w)"
  shows "chatRooms (fetchChatRooms (Some u) w) =
     map (join_room (profiles (remote w)))
       (rev (sort_key updated_at
          (if role u = ''customer''
           then filter (\<lambda>r. customer_id r = user_id u) (chat_rooms (remote w))
           else chat_rooms (remote w))))"
  using assms
  by (simp add: fetchChatRooms_def select_rooms_def send_eq setLoading_def setChatRooms_def
      transform_id Let_def)

lemma fetchMessages_ok:
  assumes "\<not> fails_at 0 (remote w)"
  shows "messages (fetchMessages rid w) =
     map (join_message (profiles (remote w)))
       (sort_key msg_created_at (filter (\<lambda>m. chat_room_id m = rid) (chat_messages (remote w))))"
  using assms
  by (simp add: fetchMessages_def select_messages_def send_eq setMessages_def Let_def)

text \<open>The lookup found the one room of the customer: it is returned, and the lookup is
  the only request.\<close>

lemma getOrCreate_found:
  assumes "role u = ''customer''" and "owned u (remote w) = [r]" and "\<not> fails_at 0 (remote w)"
  shows "getOrCreateChatRoom (Some u) w =
    (Some r, w\<lparr>remote := (remote w)\<lparr>faults := tl (faults (remote w)),
          sent := sent (remote w) @ [SelectRoomMaybeSingle (user_id u)]\<rparr>\<rparr>)"
  using assms by (simp add: getOrCreateChatRoom_def lookup_eq owned_def)

text \<open>The customer owns no room: the lookup gives no data whether it fails or not, and
  the insert follows. Its outcome decides the result.\<close>

lemma getOrCreate_created:
  assumes "role u = ''customer''" and "owned u (remote w) = []" and "\<not> fails_at (Suc 0) (remote w)"
  shows "getOrCreateChatRoom (Some u) w =
    (Some (new_room (remote w) (user_id u) Waiting),
     w\<lparr>remote := (remote w)\<lparr>faults := tl (tl (faults (remote w))),
          sent := sent (remote w) @
            [SelectRoomMaybeSingle (user_id u), InsertRoom (user_id u) Waiting],
          chat_rooms := chat_rooms (remote w) @ [new_room (remote w) (user_id u) Waiting],
          next_id := Suc (next_id (remote w))\<rparr>\<rparr>)"
  using assms
  by (auto simp: getOrCreateChatRoom_def lookup_eq owned_def insert_room_def send_eq
      fails_at_0 fails_at_1 new_room_def)

lemma getOrCreate_insert_failed:
  assumes "role u = ''customer''" and "owned u (remote w) = []" and "fails_at (Suc 0) (remote w)"
  shows "getOrCreateChatRoom (Some u) w =
    (None,
     w\<lparr>remote := (remote w)\<lparr>faults := tl (tl (faults (remote w))),
          sent := sent (remote w) @
            [SelectRoomMaybeSingle (user_id u), InsertRoom (user_id u) Waiting]\<rparr>,
       toasts := toasts w @ [error_toast ''Failed to create chat room'']\<rparr>)"
  using assms
  by (auto simp: getOrCreateChatRoom_def lookup_eq owned_def insert_room_def send_eq
      fails_at_0 fails_at_1 toast_def)

text \<open>The guard of \<open>updateChatStatus\<close> lets every other role through: the update is
  sent.\<close>

lemma updateChatStatus_staff_sends:
  assumes "role u \<noteq> ''customer''"
  shows "sent (remote (updateChatStatus (Some u) rid st None w)) =
    sent (remote w) @
      [UpdateRoom rid \<lparr>set_status = Some st, set_agent_id = None, set_updated_at = None\<rparr>]"
  using assms
  by (simp add: updateChatStatus_def update_room_def send_eq toast_def Let_def)

section \<open>The claims\<close>

text \<open>
  C1. When the query succeeds, \<open>fetchChatRooms\<close> leaves in \<open>chatRooms\<close>, for an identity
  of role "customer", the rooms of the store whose \<open>customer_id\<close> is the identity's id
  (most recently updated first) and nothing else; for an identity of any other role, all
  rooms of the store, none left out and none added.
\<close>

theorem fetchChatRooms_visible_rooms:
  assumes "\<not> fails_at 0 (remote w)"
  shows "(role u = ''customer'' \<longrightarrow>
            chatRooms (fetchChatRooms (Some u) w) =
              map (join_room (profiles (remote w)))
                (rev (sort_key updated_at
                   (filter (\<lambda>r. customer_id r = user_id u) (chat_rooms (remote w)))))
            \<and> (\<forall>r \<in> set (chatRooms (fetchChatRooms (Some u) w)). customer_id r = user_id u))
       \<and> (role u \<noteq> ''customer'' \<longrightarrow>
            chatRooms (fetchChatRooms (Some u) w) =
              map (join_room (profiles (remote w)))
                (rev (sort_key updated_at (chat_rooms (remote w))))
            \<and> mset (map row_of (chatRooms (fetchChatRooms (Some u) w))) =
                mset (chat_rooms (remote w)))"
  using fetchChatRooms_ok [OF assms, of u]
  by (auto simp: customer_id_join row_of_join o_def)

theorem fetchChatRooms_visible_rooms_witness:
  "\<not> fails_at 0 (remote world0)
   \<and> role alice = ''customer''
   \<and> map room_id (chatRooms (fetchChatRooms (Some alice) world0)) = [''r1'']
   \<and> list_all (\<lambda>r. customer_id r = user_id alice) (chatRooms (fetchChatRooms (Some alice) world0))
   \<and> role bob \<noteq> ''customer''
   \<and> map room_id (chatRooms (fetchChatRooms (Some bob) world0)) = [''r2'', ''r1'']"
  using fetchChatRooms_visible_rooms [of world0 alice]
    fetchChatRooms_visible_rooms [of world0 bob]
  by (simp add: ex_defs fails_at_def join_room_def)

text \<open>
  C2. For an identity of role "customer" that owns no room, \<open>getOrCreateChatRoom\<close> sends
  an insert of a room with status \<open>waiting\<close> and the identity's id as \<open>customer_id\<close>, and
  when that insert succeeds the new row is in the store and is what the call returns.
  When the lookup finds the room the identity owns, the call returns that room, the
  store's rooms are as before, and the lookup is the only request sent.
\<close>

theorem getOrCreateChatRoom_get_or_create:
  assumes "role u = ''customer''"
  shows "(owned u (remote w) = [] \<longrightarrow>
            sent (remote (snd (getOrCreateChatRoom (Some u) w))) =
              sent (remote w) @
                [SelectRoomMaybeSingle (user_id u), InsertRoom (user_id u) Waiting]
          \<and> (\<not> fails_at 1 (remote w) \<longrightarrow>
               fst (getOrCreateChatRoom (Some u) w) =
                 Some (new_room (remote w) (user_id u) Waiting)
             \<and> status (new_room (remote w) (user_id u) Waiting) = Waiting
             \<and> customer_id (new_room (remote w) (user_id u) Waiting) = user_id u
             \<and> chat_rooms (remote (snd (getOrCreateChatRoom (Some u) w))) =
                 chat_rooms (remote w) @ [new_room (remote w) (user_id u) Waiting]))
       \<and> (\<forall>r. owned u (remote w) = [r] \<and> \<not> fails_at 0 (remote w) \<longrightarrow>
            fst (getOrCreateChatRoom (Some u) w) = Some r
          \<and> chat_rooms (remote (snd (getOrCreateChatRoom (Some u) w))) = chat_rooms (remote w)
          \<and> sent (remote (snd (getOrCreateChatRoom (Some u) w))) =
              sent (remote w) @ [SelectRoomMaybeSingle (user_id u)])"
proof (intro conjI impI allI)
  assume none: "owned u (remote w) = []"
  show "sent (remote (snd (getOrCreateChatRoom (Some u) w))) =
      sent (remote w) @ [SelectRoomMaybeSingle (user_id u), InsertRoom (user_id u) Waiting]"
  proof (cases "fails_at (Suc 0) (remote w)")
    case True
    show ?thesis by (simp add: getOrCreate_insert_failed [OF assms none True])
  next
    case False
    show ?thesis by (simp add: getOrCreate_created [OF assms none False])
  qed
  assume "\<not> fails_at 1 (remote w)"
  then have ok: "\<not> fails_at (Suc 0) (remote w)" by simp
  note c = getOrCreate_created [OF assms none ok]
  show "fst (getOrCreateChatRoom (Some u) w) = Some (new_room (remote w) (user_id u) Waiting)"
    by (simp add: c)
  show "status (new_room (remote w) (user_id u) Waiting) = Waiting"
    by (simp add: new_room_def)
  show "customer_id (new_room (remote w) (user_id u) Waiting) = user_id u"
    by (simp add: new_room_def)
  show "chat_rooms (remote (snd (getOrCreateChatRoom (Some u) w))) =
      chat_rooms (remote w) @ [new_room (remote w) (user_id u) Waiting]"
    by (simp add: c)
next
  fix r
  assume a: "owned u (remote w) = [r] \<and> \<not> fails_at 0 (remote w)"
  then have f: "getOrCreateChatRoom (Some u) w =
    (Some r, w\<lparr>remote := (remote w)\<lparr>faults := tl (faults (remote w)),
          sent := sent (remote w) @ [SelectRoomMaybeSingle (user_id u)]\<rparr>\<rparr>)"
    using getOrCreate_found [OF assms, of w r] by simp
  show "fst (getOrCreateChatRoom (Some u) w) = Some r" by (simp add: f)
  show "chat_rooms (remote (snd (getOrCreateChatRoom (Some u) w))) = chat_rooms (remote w)"
    by (simp add: f)
  show "sent (remote (snd (getOrCreateChatRoom (Some u) w))) =
      sent (remote w) @ [SelectRoomMaybeSingle (user_id u)]"
    by (simp add: f)
qed

theorem getOrCreateChatRoom_get_or_create_witness:
  "role carol = ''customer'' \<and> owned carol (remote world0) = []
   \<and> \<not> fails_at 1 (remote world0)
   \<and> sent (remote (snd (getOrCreateChatRoom (Some carol) world0))) =
       [SelectRoomMaybeSingle ''u3'', InsertRoom ''u3'' Waiting]
   \<and> fst (getOrCreateChatRoom (Some carol) world0) =
       Some \<lparr>room_id = ''gen-'', customer_id = ''u3'', agent_id = None, status = Waiting,
             created_at = 10, updated_at = 10\<rparr>
   \<and> chat_rooms (remote (snd (getOrCreateChatRoom (Some carol) world0))) =
       [room1, room2,
        \<lparr>room_id = ''gen-'', customer_id = ''u3'', agent_id = None, status = Waiting,
          created_at = 10, updated_at = 10\<rparr>]
   \<and> role alice = ''customer'' \<and> owned alice (remote world0) = [room1]
   \<and> \<not> fails_at 0 (remote world0)
   \<and> fst (getOrCreateChatRoom (Some alice) world0) = Some room1
   \<and> chat_rooms (remote (snd (getOrCreateChatRoom (Some alice) world0))) = [room1, room2]"
proof -
  have c: "role carol = ''customer''" and a: "role alice = ''customer''"
    by (simp_all add: carol_def alice_def)
  show ?thesis
    using getOrCreateChatRoom_get_or_create [OF c, of world0]
      getOrCreateChatRoom_get_or_create [OF a, of world0]
    by (simp add: ex_defs owned_def fails_at_def new_room_def gen_id_def)
qed

text \<open>
  Two invocations in sequence, where the code does get or create: for an identity of
  role "customer" that owns at most one room, on a store where no request fails, both
  return the same room; the second finds the room the first found or created.
\<close>

lemma getOrCreate_twice_same:
  assumes "role u = ''customer''" and "faults (remote w) = []"
    and "length (owned u (remote w)) \<le> 1"
  shows "fst (getOrCreateChatRoom (Some u) (snd (getOrCreateChatRoom (Some u) w))) =
           fst (getOrCreateChatRoom (Some u) w)
       \<and> fst (getOrCreateChatRoom (Some u) w) \<noteq> None"
proof (cases "owned u (remote w)")
  case Nil
  have nf: "\<not> fails_at (Suc 0) (remote w)" using assms(2) by (simp add: fails_at_def)
  note c = getOrCreate_created [OF assms(1) Nil nf]
  let ?w1 = "snd (getOrCreateChatRoom (Some u) w)"
  have o1: "owned u (remote ?w1) = [new_room (remote w) (user_id u) Waiting]"
    using Nil by (simp add: c owned_def new_room_def)
  have nf1: "\<not> fails_at 0 (remote ?w1)" using assms(2) by (simp add: c fails_at_def)
  show ?thesis
    using getOrCreate_found [OF assms(1) o1 nf1] by (simp add: c)
next
  case (Cons r rs)
  with assms(3) have one: "owned u (remote w) = [r]" by simp
  have nf: "\<not> fails_at 0 (remote w)" using assms(2) by (simp add: fails_at_def)
  note f = getOrCreate_found [OF assms(1) one nf]
  let ?w1 = "snd (getOrCreateChatRoom (Some u) w)"
  have o1: "owned u (remote ?w1) = [r]" using one by (simp add: f owned_def)
  have nf1: "\<not> fails_at 0 (remote ?w1)" using assms(2) by (simp add: f fails_at_def)
  show ?thesis
    using getOrCreate_found [OF assms(1) o1 nf1] by (simp add: f)
qed

lemma getOrCreate_twice_same_example:
  "role carol = ''customer'' \<and> faults (remote world0) = []
   \<and> length (owned carol (remote world0)) \<le> 1
   \<and> fst (getOrCreateChatRoom (Some carol) (snd (getOrCreateChatRoom (Some carol) world0))) =
       fst (getOrCreateChatRoom (Some carol) world0)
   \<and> fst (getOrCreateChatRoom (Some carol) world0) \<noteq> None"
proof -
  have c: "role carol = ''customer''" by (simp add: carol_def)
  have f: "faults (remote world0) = []" by (simp add: ex_defs)
  have l: "length (owned carol (remote world0)) \<le> 1" by (simp add: ex_defs owned_def)
  show ?thesis
    using getOrCreate_twice_same [OF c f l] c f l by simp
qed

text \<open>
  A customer who owns two rooms, with every request succeeding: \<open>maybeSingle\<close> gives
  no data (and an error) for two rows, so each call inserts a room of its own and the two
  calls return different rooms.
\<close>

lemma getOrCreate_two_rooms_diverge:
  "role alice = ''customer'' \<and> faults (remote world_dup) = []
   \<and> map_option room_id (fst (getOrCreateChatRoom (Some alice) world_dup)) = Some ''gen-''
   \<and> map_option room_id
       (fst (getOrCreateChatRoom (Some alice) (snd (getOrCreateChatRoom (Some alice) world_dup)))) =
       Some ''gen-+''
   \<and> fst (getOrCreateChatRoom (Some alice) (snd (getOrCreateChatRoom (Some alice) world_dup))) \<noteq>
       fst (getOrCreateChatRoom (Some alice) world_dup)"
  by (simp add: ex_defs op_defs)

text \<open>
  C3. Two invocations of \<open>getOrCreateChatRoom\<close> in sequence, with no insert from
  elsewhere in between, are to return the same room. The code does not keep this: line
  71 reads only \<open>data\<close> of the lookup and never its \<open>error\<close> (the insert at lines 79-88
  reads \<open>createError\<close>; the selects at lines 31-36 and 56-65 read \<open>error\<close>). Here \<open>alice\<close>
  owns exactly \<open>room1\<close>, the lookup of the first call fails and every other request
  succeeds. The first call takes the failed lookup for "no room", inserts a second room
  and returns it; the second call finds two rows, again gets no data, inserts a third room
  and returns that one. The two calls return different rooms, neither of them the room
  \<open>alice\<close> had, and no toast is raised.
\<close>

theorem getOrCreateChatRoom_lookup_error_ignored:
  "role alice = ''customer''
   \<and> owned alice (remote world_down) = [room1]
   \<and> faults (remote world_down) = [True]
   \<and> fst (getOrCreateChatRoom (Some alice) world_down) =
       Some \<lparr>room_id = ''gen-'', customer_id = ''u1'', agent_id = None, status = Waiting,
             created_at = 10, updated_at = 10\<rparr>
   \<and> fst (getOrCreateChatRoom (Some alice) (snd (getOrCreateChatRoom (Some alice) world_down))) =
       Some \<lparr>room_id = ''gen-+'', customer_id = ''u1'', agent_id = None, status = Waiting,
             created_at = 10, updated_at = 10\<rparr>
   \<and> fst (getOrCreateChatRoom (Some alice) (snd (getOrCreateChatRoom (Some alice) world_down))) \<noteq>
       fst (getOrCreateChatRoom (Some alice) world_down)
   \<and> toasts (snd (getOrCreateChatRoom (Some alice)
         (snd (getOrCreateChatRoom (Some alice) world_down)))) = []
   \<and> map room_id (chat_rooms (remote (snd (getOrCreateChatRoom (Some alice)
         (snd (getOrCreateChatRoom (Some alice) world_down)))))) =
       [''r1'', ''r2'', ''gen-'', ''gen-+'']"
  by (simp add: ex_defs op_defs)

text \<open>
  C4. For a present identity and a text that is not empty after trimming, \<open>sendMessage\<close>
  sends the insert of the message and then the update of the room's \<open>updated_at\<close> to the
  client's time, on both outcomes of the insert. A failed insert adds no message and
  raises the toast "Failed to send message"; the room is touched all the same (unless the
  update itself fails).
\<close>

theorem sendMessage_touches_room:
  assumes "trim msg \<noteq> []"
  shows "sent (remote (sendMessage (Some u) rid msg w)) =
           sent (remote w) @
             [InsertMessage rid (user_id u) (trim msg),
              UpdateRoom rid
                \<lparr>set_status = None, set_agent_id = None, set_updated_at = Some (now w)\<rparr>]
       \<and> toasts (sendMessage (Some u) rid msg w) =
           toasts w @
             (if fails_at 0 (remote w) then [error_toast ''Failed to send message''] else [])
       \<and> chat_messages (remote (sendMessage (Some u) rid msg w)) =
           chat_messages (remote w) @
             (if fails_at 0 (remote w) then []
              else [new_message (remote w) rid (user_id u) (trim msg)])
       \<and> chat_rooms (remote (sendMessage (Some u) rid msg w)) =
           (if fails_at 1 (remote w) then chat_rooms (remote w)
            else map (\<lambda>r. if room_id r = rid then r\<lparr>updated_at := now w\<rparr> else r)
                   (chat_rooms (remote w)))"
  using assms
  by (simp add: sendMessage_def insert_message_def update_room_def send_eq toast_def Let_def
      fails_at_0 fails_at_1 new_message_def apply_patch_def)

theorem sendMessage_touches_room_witness:
  "trim [0x68, 0x69, 0x20] = [0x68, 0x69]
   \<and> fails_at 0 (remote world_down)
   \<and> sent (remote (sendMessage (Some alice) ''r1'' [0x68, 0x69, 0x20] world_down)) =
       [InsertMessage ''r1'' ''u1'' [0x68, 0x69],
        UpdateRoom ''r1'' \<lparr>set_status = None, set_agent_id = None, set_updated_at = Some 11\<rparr>]
   \<and> toasts (sendMessage (Some alice) ''r1'' [0x68, 0x69, 0x20] world_down) =
       [error_toast ''Failed to send message'']
   \<and> chat_messages (remote (sendMessage (Some alice) ''r1'' [0x68, 0x69, 0x20] world_down)) =
       [msg1, msg2, msg3]
   \<and> chat_rooms (remote (sendMessage (Some alice) ''r1'' [0x68, 0x69, 0x20] world_down)) =
       [room1\<lparr>updated_at := 11\<rparr>, room2]"
proof -
  have t: "trim [0x68, 0x69, 0x20] = [0x68, 0x69]"
    by (simp add: trim_def isWhiteSpace_def)
  then have ne: "trim [0x68, 0x69, 0x20] \<noteq> []" by simp
  show ?thesis
    using sendMessage_touches_room [OF ne, of alice "''r1''" world_down] t
    by (simp add: ex_defs fails_at_def)
qed

text \<open>
  C5, as amended. For every invocation of \<open>fetchChatRooms\<close> with an identity present,
  \<open>setLoading\<close> is called exactly once, with \<open>false\<close>, whether the query succeeds or
  fails, and the flag is false afterwards: a flag that was true goes from true to false
  exactly once. An invocation with no identity returns at the guard and changes nothing.
\<close>

theorem fetchChatRooms_clears_loading:
  "loading (fetchChatRooms (Some u) w) = False
   \<and> loading_writes (fetchChatRooms (Some u) w) = loading_writes w @ [False]
   \<and> fetchChatRooms None w = w"
  by (simp add: fetchChatRooms_def select_rooms_def send_eq setLoading_def setChatRooms_def
      toast_def Let_def)

theorem fetchChatRooms_clears_loading_witness:
  "loading world_down
   \<and> fails_at 0 (remote world_down)
   \<and> \<not> loading (fetchChatRooms (Some alice) world_down)
   \<and> loading_writes (fetchChatRooms (Some alice) world_down) = [False]
   \<and> toasts (fetchChatRooms (Some alice) world_down) = [error_toast ''Failed to load chat rooms'']"
  using fetchChatRooms_clears_loading [of alice world_down]
  by (simp add: ex_defs op_defs)

text \<open>
  C5 as stated fails for an invocation with no identity: the flag is true before and
  true after, and \<open>setLoading\<close> was not called.
\<close>

theorem fetchChatRooms_no_identity_counterexample:
  "loading world0
   \<and> loading (fetchChatRooms None world0)
   \<and> loading_writes (fetchChatRooms None world0) = loading_writes world0"
  by (simp add: fetchChatRooms_def world0_def)

text \<open>
  C6. When no identity is present, or the text is empty or all white space,
  \<open>sendMessage\<close> changes nothing: no request reaches the store (so no insert and no
  touch of the room), no toast is raised and the hook's state is as before.
\<close>

theorem sendMessage_blank_noop:
  assumes "usr = None \<or> (\<forall>c \<in> set msg. isWhiteSpace c)"
  shows "sendMessage usr rid msg w = w"
  using assms
  by (auto simp: sendMessage_def trim_empty_iff split: option.splits)

theorem sendMessage_blank_noop_witness:
  "list_all isWhiteSpace [0x20, 0x09, 0xA0, 0x2003]
   \<and> sendMessage (Some alice) ''r1'' [0x20, 0x09, 0xA0, 0x2003] world0 = world0
   \<and> sendMessage (Some alice) ''r1'' [] world0 = world0
   \<and> sendMessage None ''r1'' [0x68, 0x69] world0 = world0"
  using sendMessage_blank_noop [of "Some alice" "[0x20, 0x09, 0xA0, 0x2003]" "''r1''" world0]
    sendMessage_blank_noop [of "Some alice" "[]" "''r1''" world0]
    sendMessage_blank_noop [of None "[0x68, 0x69]" "''r1''" world0]
  by (simp add: isWhiteSpace_def)

text \<open>
  C7. When the query succeeds, \<open>fetchMessages\<close> replaces \<open>messages\<close> with the messages of
  the store that belong to the room, all of them and no other, in non-decreasing order
  of creation time.
\<close>

theorem fetchMessages_oldest_first:
  assumes "\<not> fails_at 0 (remote w)"
  shows "sorted (map msg_created_at (messages (fetchMessages rid w)))
       \<and> mset (map message_row_of (messages (fetchMessages rid w))) =
           mset (filter (\<lambda>m. chat_room_id m = rid) (chat_messages (remote w)))
       \<and> messages (fetchMessages rid w) =
           map (join_message (profiles (remote w)))
             (sort_key msg_created_at
                (filter (\<lambda>m. chat_room_id m = rid) (chat_messages (remote w))))"
  using fetchMessages_ok [OF assms, of rid]
  by (simp add: o_def created_at_join message_row_of_join)

theorem fetchMessages_oldest_first_witness:
  "\<not> fails_at 0 (remote world0)
   \<and> map msg_id (messages (fetchMessages ''r1'' world0)) = [''m2'', ''m1'']
   \<and> map msg_created_at (messages (fetchMessages ''r1'' world0)) = [4, 9]
   \<and> sorted (map msg_created_at (messages (fetchMessages ''r1'' world0)))"
  using fetchMessages_oldest_first [of world0 "''r1''"]
  by (simp add: ex_defs fails_at_def join_message_def)

text \<open>
  C8. \<open>updateChatStatus\<close> invoked with no identity, or by an identity of role "customer",
  changes nothing: the guard returns before any request is built, so no update reaches
  the store.
\<close>

theorem updateChatStatus_customer_noop:
  assumes "usr = None \<or> (\<exists>u. usr = Some u \<and> role u = ''customer'')"
  shows "updateChatStatus usr rid st agentId w = w"
  using assms
  by (auto simp: updateChatStatus_def)

theorem updateChatStatus_customer_noop_witness:
  "role alice = ''customer''
   \<and> updateChatStatus (Some alice) ''r2'' Closed (Some ''a1'') world0 = world0
   \<and> updateChatStatus None ''r2'' Closed None world0 = world0"
  using updateChatStatus_customer_noop [of "Some alice" "''r2''" Closed "Some ''a1''" world0]
    updateChatStatus_customer_noop [of None "''r2''" Closed None world0]
  by (simp add: alice_def)

text \<open>
  C9. When the query of \<open>fetchMessages\<close> fails, \<open>messages\<close> is what it was and no toast is
  raised; nothing changes but the store's record of the request.
\<close>

theorem fetchMessages_failure_silent:
  assumes "fails_at 0 (remote w)"
  shows "messages (fetchMessages rid w) = messages w
       \<and> toasts (fetchMessages rid w) = toasts w
       \<and> fetchMessages rid w =
           w\<lparr>remote := (remote w)\<lparr>faults := tl (faults (remote w)),
                                   sent := sent (remote w) @ [SelectMessages rid]\<rparr>\<rparr>"
  using assms
  by (simp add: fetchMessages_def select_messages_def send_eq Let_def)

theorem fetchMessages_failure_silent_witness:
  "fails_at 0 (remote world_down)
   \<and> messages (fetchMessages ''r1'' world_down) = [join_message [] msg3]
   \<and> toasts (fetchMessages ''r1'' world_down) = []"
  using fetchMessages_failure_silent [of world_down "''r1''"]
  by (simp add: ex_defs fails_at_def)

text \<open>
  C10, as amended. The lookup of \<open>getOrCreateChatRoom\<close> does not look at the status: for
  a customer whose only room is closed, whenever the lookup request succeeds, the call
  returns that closed room; no insert is sent and the store's rooms are as before, so the
  same holds for the next call.
\<close>

theorem getOrCreateChatRoom_ignores_status:
  assumes "role u = ''customer''" and "owned u (remote w) = [r]" and "status r = Closed"
    and "\<not> fails_at 0 (remote w)"
  shows "fst (getOrCreateChatRoom (Some u) w) = Some r
       \<and> map_option status (fst (getOrCreateChatRoom (Some u) w)) = Some Closed
       \<and> chat_rooms (remote (snd (getOrCreateChatRoom (Some u) w))) = chat_rooms (remote w)
       \<and> sent (remote (snd (getOrCreateChatRoom (Some u) w))) =
           sent (remote w) @ [SelectRoomMaybeSingle (user_id u)]"
  using assms by (simp add: getOrCreate_found)

theorem getOrCreateChatRoom_ignores_status_witness:
  "role alice = ''customer'' \<and> owned alice (remote world0) = [room1] \<and> status room1 = Closed
   \<and> \<not> fails_at 0 (remote world0)
   \<and> fst (getOrCreateChatRoom (Some alice) world0) = Some room1
   \<and> chat_rooms (remote (snd (getOrCreateChatRoom (Some alice) world0))) = [room1, room2]
   \<and> sent (remote (snd (getOrCreateChatRoom (Some alice) world0))) =
       [SelectRoomMaybeSingle ''u1'']"
proof -
  have a: "role alice = ''customer''" by (simp add: alice_def)
  have o: "owned alice (remote world0) = [room1]" by (simp add: ex_defs owned_def)
  have s: "status room1 = Closed" by (simp add: room1_def)
  have f: "\<not> fails_at 0 (remote world0)" by (simp add: ex_defs fails_at_def)
  show ?thesis
    using getOrCreateChatRoom_ignores_status [OF a o s f] a o s f
    by (simp add: ex_defs)
qed

text \<open>
  C10 as stated ("never creates a new one") fails when the lookup request itself fails:
  \<open>alice\<close>'s only room is closed, the failed lookup gives no data, and the call inserts
  and returns a fresh room with status \<open>waiting\<close>.
\<close>

theorem getOrCreateChatRoom_closed_room_counterexample:
  "role alice = ''customer''
   \<and> owned alice (remote world_down) = [room1]
   \<and> status room1 = Closed
   \<and> fails_at 0 (remote world_down)
   \<and> fst (getOrCreateChatRoom (Some alice) world_down) =
       Some \<lparr>room_id = ''gen-'', customer_id = ''u1'', agent_id = None, status = Waiting,
             created_at = 10, updated_at = 10\<rparr>
   \<and> sent (remote (snd (getOrCreateChatRoom (Some alice) world_down))) =
       [SelectRoomMaybeSingle ''u1'', InsertRoom ''u1'' Waiting]
   \<and> chat_rooms (remote (snd (getOrCreateChatRoom (Some alice) world_down))) =
       [room1, room2,
        \<lparr>room_id = ''gen-'', customer_id = ''u1'', agent_id = None, status = Waiting,
          created_at = 10, updated_at = 10\<rparr>]"
  by (simp add: ex_defs op_defs)

end
